theory Spec2Isabelle
  imports Complex_Main
begin

section \<open>Python values used by the monitor\<close>

text \<open>
  The two scripts \<^verbatim>\<open>supabase_monitor.py\<close> and \<^verbatim>\<open>app.py\<close> define a class
  \<^verbatim>\<open>SupabaseMonitor\<close>. Statuses are Python strings, counters are Python integers
  (\<open>int\<close>), latencies and averages are floats, idealised here as exact reals.
\<close>

subsection \<open>\<^verbatim>\<open>str\<close> of an integer\<close>

definition digit_char :: "nat \<Rightarrow> char" where
  "digit_char d = char_of (48 + d)"

fun str_nat :: "nat \<Rightarrow> string" where
  "str_nat n = (if n < 10 then [digit_char n] else str_nat (n div 10) @ [digit_char (n mod 10)])"

declare str_nat.simps [simp del]

definition str_int :: "int \<Rightarrow> string" where
  "str_int i = (if i < 0 then CHR ''-'' # str_nat (nat (- i)) else str_nat (nat i))"

subsection \<open>Exceptions of the \<^verbatim>\<open>requests\<close> library\<close>

text \<open>
  An exception is known by its class and its text \<^verbatim>\<open>str(e)\<close>. The \<^verbatim>\<open>except\<close> clauses
  of the source test the class in order, so the subclass relation is kept:
  \<^verbatim>\<open>ConnectTimeout\<close> is both a \<^verbatim>\<open>ConnectionError\<close> and a \<^verbatim>\<open>Timeout\<close>, and all of them
  but \<open>OtherException\<close> are a \<^verbatim>\<open>RequestException\<close>.
\<close>

datatype exc_class =
  Timeout | ConnectTimeout | ConnectionError | HTTPError | RequestException | OtherException

definition isinstance_Timeout :: "exc_class \<Rightarrow> bool" where
  "isinstance_Timeout c = (c = Timeout \<or> c = ConnectTimeout)"

definition isinstance_ConnectionError :: "exc_class \<Rightarrow> bool" where
  "isinstance_ConnectionError c = (c = ConnectionError \<or> c = ConnectTimeout)"

definition isinstance_RequestException :: "exc_class \<Rightarrow> bool" where
  "isinstance_RequestException c = (c \<noteq> OtherException)"

text \<open>
  What one \<^verbatim>\<open>requests.get\<close> does: it returns a response, of which the code reads the
  status code and the elapsed time (already in milliseconds, rounded to two places), or
  it raises.
\<close>

datatype transport = Response int real | Raised exc_class string

subsection \<open>Configuration constants\<close>

definition CHECK_INTERVAL :: int where
  "CHECK_INTERVAL = 60"

definition REQUEST_TIMEOUT :: int where
  "REQUEST_TIMEOUT = 10"

section \<open>The primary health check\<close>

record health_status =
  status :: string
  response_time :: "real option"
  error_message :: "string option"
  status_code :: "int option"

text \<open>
  \<^verbatim>\<open>SupabaseMonitor.check_supabase_health\<close>, the same text in both scripts
  (\<^verbatim>\<open>supabase_monitor.py\<close> lines 148-209, \<^verbatim>\<open>app.py\<close> lines 68-129). The dictionary
  starts with status \<^verbatim>\<open>'unknown'\<close>; the branches of the \<^verbatim>\<open>if\<close>/\<^verbatim>\<open>elif\<close> chain and
  the \<^verbatim>\<open>except\<close> clauses are kept in the order of the source.
\<close>

definition check_supabase_health :: "transport \<Rightarrow> health_status" where
  "check_supabase_health tr =
     (let health_status =
            \<lparr>status = ''unknown'', response_time = None, error_message = None,
             status_code = None\<rparr>
      in case tr of
           Response code ms \<Rightarrow>
             (let health_status = health_status\<lparr>response_time := Some ms\<rparr>;
                  health_status = health_status\<lparr>status_code := Some code\<rparr>
              in if code = 200 then health_status\<lparr>status := ''healthy''\<rparr>
                 else if code \<ge> 500 then
                   health_status\<lparr>status := ''error'',
                     error_message := Some (''Internal server error: '' @ str_int code)\<rparr>
                 else if code = 401 then
                   health_status\<lparr>status := ''error'',
                     error_message := Some ''Authentication failed - check your API key''\<rparr>
                 else if code = 403 then
                   health_status\<lparr>status := ''error'',
                     error_message := Some ''Access forbidden - check permissions''\<rparr>
                 else if code \<ge> 400 then
                   health_status\<lparr>status := ''warning'',
                     error_message := Some (''Client error: '' @ str_int code)\<rparr>
                 else
                   health_status\<lparr>status := ''warning'',
                     error_message := Some (''Unexpected status code: '' @ str_int code)\<rparr>)
         | Raised c txt \<Rightarrow>
             if isinstance_Timeout c then
               health_status\<lparr>status := ''error'',
                 error_message :=
                   Some (''Request timeout after '' @ str_int REQUEST_TIMEOUT @ '' seconds'')\<rparr>
             else if isinstance_ConnectionError c then
               health_status\<lparr>status := ''error'',
                 error_message := Some ''Connection error - unable to reach Supabase''\<rparr>
             else if isinstance_RequestException c then
               health_status\<lparr>status := ''error'',
                 error_message := Some (''Request error: '' @ txt)\<rparr>
             else
               health_status\<lparr>status := ''error'',
                 error_message := Some (''Unexpected error: '' @ txt)\<rparr>)"

section \<open>Auxiliary endpoints\<close>

record endpoint_status =
  ep_status :: string
  ep_status_code :: "int option"
  ep_error :: "string option"

text \<open>
  The body of the \<^verbatim>\<open>for\<close> loop of \<^verbatim>\<open>check_specific_endpoints\<close> for one endpoint (the
  keys \<^verbatim>\<open>'status'\<close>, \<^verbatim>\<open>'status_code'\<close>, \<^verbatim>\<open>'error'\<close> carry the prefix \<open>ep_\<close> here), and
  the dictionary it fills, in insertion order, for the three fixed endpoints.
\<close>

definition check_endpoint :: "transport \<Rightarrow> endpoint_status" where
  "check_endpoint tr =
     (case tr of
        Response code ms \<Rightarrow>
          \<lparr>ep_status = (if code = 200 then ''healthy'' else ''error''),
           ep_status_code = Some code,
           ep_error = (if code = 200 then None else Some (''HTTP '' @ str_int code))\<rparr>
      | Raised c txt \<Rightarrow>
          \<lparr>ep_status = ''error'', ep_status_code = None, ep_error = Some txt\<rparr>)"

definition check_specific_endpoints ::
  "transport \<Rightarrow> transport \<Rightarrow> transport \<Rightarrow> (string \<times> endpoint_status) list" where
  "check_specific_endpoints auth realtime storage =
     [(''Auth'', check_endpoint auth), (''Realtime'', check_endpoint realtime),
      (''Storage'', check_endpoint storage)]"

section \<open>Dates, times and the daily statistics\<close>

text \<open>
  A \<^verbatim>\<open>datetime.now()\<close> reading with its \<^verbatim>\<open>date()\<close> and \<^verbatim>\<open>time()\<close>. The fields of a
  Python \<^verbatim>\<open>time\<close> are never negative, so they are naturals. Naive times compare as the
  tuples (hour, minute, second, microsecond).
\<close>

record py_date =
  year :: int
  month :: int
  day :: int

record py_time =
  hour :: nat
  minute :: nat
  second :: nat
  microsecond :: nat

record datetime =
  date :: py_date
  time :: py_time

definition time_ge :: "py_time \<Rightarrow> py_time \<Rightarrow> bool" where
  "time_ge a b =
     (hour a > hour b \<or> (hour a = hour b \<and>
       (minute a > minute b \<or> (minute a = minute b \<and>
         (second a > second b \<or> (second a = second b \<and> microsecond a \<ge> microsecond b))))))"

definition DAILY_REPORT_TIME :: py_time where
  "DAILY_REPORT_TIME = \<lparr>hour = 9, minute = 0, second = 0, microsecond = 0\<rparr>"

record daily_stats =
  checks_today :: int
  errors_today :: int
  warnings_today :: int
  total_downtime_minutes :: real
  average_response_time :: real
  response_times :: "real list"

text \<open>The dictionary literal of \<^verbatim>\<open>__init__\<close> and of \<^verbatim>\<open>reset_daily_stats\<close>.\<close>

definition zero_daily_stats :: daily_stats where
  "zero_daily_stats =
     \<lparr>checks_today = 0, errors_today = 0, warnings_today = 0, total_downtime_minutes = 0,
      average_response_time = 0, response_times = []\<rparr>"

text \<open>Python's \<^verbatim>\<open>/\<close> raises on a zero divisor.\<close>

datatype py_error = ZeroDivisionError

definition py_truediv :: "real \<Rightarrow> real \<Rightarrow> py_error + real" where
  "py_truediv a b = (if b = 0 then Inl ZeroDivisionError else Inr (a / b))"

text \<open>
  \<^verbatim>\<open>update_daily_stats\<close> (\<^verbatim>\<open>supabase_monitor.py\<close> lines 66-78), on the dictionary
  alone. The result is the exception raised, if any, and the dictionary as mutated up to
  that point. The test \<^verbatim>\<open>if health_status.get('response_time'):\<close> is a truth test: it
  fails for \<^verbatim>\<open>None\<close> and for a latency of zero.
\<close>

definition update_daily_stats :: "daily_stats \<Rightarrow> health_status \<Rightarrow> py_error option \<times> daily_stats" where
  "update_daily_stats ds health_status =
     (let ds = ds\<lparr>checks_today := checks_today ds + 1\<rparr>;
          ds = (if status health_status = ''error'' then
                  (let ds = ds\<lparr>errors_today := errors_today ds + 1\<rparr>
                   in ds\<lparr>total_downtime_minutes :=
                            total_downtime_minutes ds + real_of_int CHECK_INTERVAL / 60\<rparr>)
                else if status health_status = ''warning'' then
                  ds\<lparr>warnings_today := warnings_today ds + 1\<rparr>
                else ds)
      in case response_time health_status of
           None \<Rightarrow> (None, ds)
         | Some rt \<Rightarrow>
             if rt = 0 then (None, ds)
             else
               (let ds = ds\<lparr>response_times := response_times ds @ [rt]\<rparr>
                in case py_truediv (sum_list (response_times ds))
                                   (real (length (response_times ds))) of
                     Inl e \<Rightarrow> (Some e, ds)
                   | Inr avg \<Rightarrow> (None, ds\<lparr>average_response_time := avg\<rparr>)))"

text \<open>
  The first statement of \<^verbatim>\<open>send_daily_success_report\<close> (line 122):
  \<^verbatim>\<open>100 - (errors_today / max(checks_today, 1) * 100)\<close>.
\<close>

definition uptime_percentage :: "daily_stats \<Rightarrow> py_error + real" where
  "uptime_percentage ds =
     (case py_truediv (real_of_int (errors_today ds))
                      (real_of_int (max (checks_today ds) 1)) of
        Inl e \<Rightarrow> Inl e
      | Inr q \<Rightarrow> Inr (100 - q * 100))"

section \<open>Notifications\<close>

text \<open>
  The text of a notification is an f-string; the model keeps the values interpolated into
  it and leaves the rendering (markers, number formats, time stamp) out.
  \<open>Down\<close>: error message, status code, consecutive failures, failed endpoints.
  \<open>Warning_msg\<close>: error message, status code, response time.
  \<open>Back_online\<close>: response time, previous consecutive failures.
  \<open>Daily_report\<close>: date, whether the last status is healthy, checks, uptime, errors,
  warnings, the downtime when positive, the average response time when positive.
  \<open>Monitor_error\<close>: the exception caught by the loop.
\<close>

datatype message =
    Down "string option" "int option" int "string list"
  | Warning_msg "string option" "int option" "real option"
  | Back_online "real option" int
  | Daily_report py_date bool int real int int "real option" "real option"
  | Monitor_error py_error

text \<open>
  What \<^verbatim>\<open>requests.post\<close> to the messaging service does: it returns a response with a
  status code (and the text \<^verbatim>\<open>raise_for_status\<close> would raise with), or it raises.
\<close>

datatype post_outcome = PostReturned int string | PostRaised exc_class string

datatype log_line = LogInfo string | LogError string

record alert =
  alert_severity :: string
  alert_message :: message
  alert_log :: log_line

text \<open>
  \<^verbatim>\<open>send_telegram_alert\<close>: the message is posted with its severity, and both
  \<^verbatim>\<open>except\<close> clauses only log, so the call always returns. \<^verbatim>\<open>raise_for_status\<close> raises
  an \<^verbatim>\<open>HTTPError\<close> for a status code in [400,600).
\<close>

definition send_telegram_alert :: "message \<Rightarrow> string \<Rightarrow> post_outcome \<Rightarrow> alert" where
  "send_telegram_alert message severity post =
     \<lparr>alert_severity = severity, alert_message = message,
      alert_log =
        (case post of
           PostReturned code txt \<Rightarrow>
             if 400 \<le> code \<and> code < 600 then
               LogError (''Failed to send Telegram alert: '' @ txt)
             else LogInfo (''Telegram alert sent successfully: '' @ severity)
         | PostRaised c txt \<Rightarrow>
             if isinstance_RequestException c then
               LogError (''Failed to send Telegram alert: '' @ txt)
             else LogError (''Unexpected error sending Telegram alert: '' @ txt))\<rparr>"

section \<open>The monitor and its loop\<close>

text \<open>
  The attributes of \<^verbatim>\<open>SupabaseMonitor\<close>. The class of \<^verbatim>\<open>app.py\<close> has the first two;
  the class of \<^verbatim>\<open>supabase_monitor.py\<close> adds the report date and the statistics. (The
  constant \<^verbatim>\<open>headers\<close> is left out.)
\<close>

record app_monitor =
  last_status :: "string option"
  consecutive_failures :: int

record monitor = app_monitor +
  last_daily_report_date :: "py_date option"
  daily_stats :: daily_stats

definition app_init :: app_monitor where
  "app_init = \<lparr>last_status = None, consecutive_failures = 0\<rparr>"

definition init :: monitor where
  "init = \<lparr>last_status = None, consecutive_failures = 0, last_daily_report_date = None,
            daily_stats = zero_daily_stats\<rparr>"

definition reset_daily_stats :: "monitor \<Rightarrow> monitor" where
  "reset_daily_stats s = s\<lparr>daily_stats := zero_daily_stats\<rparr>"

text \<open>\<^verbatim>\<open>should_send_daily_report\<close>, given the reading of \<^verbatim>\<open>datetime.now()\<close>.\<close>

definition should_send_daily_report :: "monitor \<Rightarrow> datetime \<Rightarrow> bool" where
  "should_send_daily_report s now =
     (let current_date = date now; current_time = time now
      in if last_daily_report_date s \<noteq> Some current_date
            \<and> time_ge current_time DAILY_REPORT_TIME
         then True else False)"

text \<open>
  \<^verbatim>\<open>send_daily_success_report\<close>. It reads the clock twice: \<open>now_msg\<close> for the date in
  the message and \<open>now_set\<close> for the date it stores. The result is the exception
  raised, if any, the monitor and the notifications sent.
\<close>

definition send_daily_success_report ::
  "monitor \<Rightarrow> datetime \<Rightarrow> datetime \<Rightarrow> post_outcome \<Rightarrow> py_error option \<times> monitor \<times> alert list" where
  "send_daily_success_report s now_msg now_set post =
     (case uptime_percentage (daily_stats s) of
        Inl e \<Rightarrow> (Some e, s, [])
      | Inr uptime \<Rightarrow>
          (let ds = daily_stats s;
               message =
                 Daily_report (date now_msg) (last_status s = Some ''healthy'')
                   (checks_today ds) uptime (errors_today ds) (warnings_today ds)
                   (if total_downtime_minutes ds > 0 then Some (total_downtime_minutes ds)
                    else None)
                   (if average_response_time ds > 0 then Some (average_response_time ds)
                    else None);
               sent = send_telegram_alert message ''DAILY_SUCCESS'' post;
               s = s\<lparr>last_daily_report_date := Some (date now_set)\<rparr>;
               s = reset_daily_stats s
           in (None, s, [sent])))"

text \<open>
  The block under the comment \<^verbatim>\<open># Alert logic\<close> up to the assignment of
  \<^verbatim>\<open>last_status\<close>, the same text in both loops (\<^verbatim>\<open>supabase_monitor.py\<close> lines 265-306,
  \<^verbatim>\<open>app.py\<close> lines 178-219). It returns the monitor and the notifications sent.
\<close>

definition alert_logic ::
  "'a app_monitor_scheme \<Rightarrow> health_status \<Rightarrow> (string \<times> endpoint_status) list \<Rightarrow> post_outcome
     \<Rightarrow> 'a app_monitor_scheme \<times> alert list" where
  "alert_logic s health_status endpoints_status post =
     (let current_status = status health_status;
          (s, sent) =
            (if current_status = ''error'' then
               (let s = s\<lparr>consecutive_failures := consecutive_failures s + 1\<rparr>
                in if consecutive_failures s = 1 \<or> consecutive_failures s mod 5 = 0 then
                     (let failed_endpoints =
                            map fst (filter (\<lambda>(name, st). ep_status st = ''error'')
                                       endpoints_status);
                          message = Down (error_message health_status)
                                      (status_code health_status) (consecutive_failures s)
                                      failed_endpoints
                      in (s, [send_telegram_alert message ''ERROR'' post]))
                   else (s, []))
             else if current_status = ''warning'' then
               (let message = Warning_msg (error_message health_status)
                                (status_code health_status) (response_time health_status);
                    sent = send_telegram_alert message ''WARNING'' post
                in (s\<lparr>consecutive_failures := 0\<rparr>, [sent]))
             else
               (let sent =
                      (if (last_status s = Some ''error'' \<or> last_status s = Some ''warning'')
                          \<and> current_status = ''healthy''
                       then [send_telegram_alert
                               (Back_online (response_time health_status)
                                  (consecutive_failures s)) ''INFO'' post]
                       else [])
                in (s\<lparr>consecutive_failures := 0\<rparr>, sent)))
      in (s\<lparr>last_status := Some current_status\<rparr>, sent))"

text \<open>
  What one iteration of a loop reads from outside: the responses of the four GET requests
  and of the POST of the alert; the loop with the daily report also reads the clock three
  times and may post the report and, in its handler, the error notification.
\<close>

record app_tick_io =
  primary :: transport
  auth_ep :: transport
  realtime_ep :: transport
  storage_ep :: transport
  alert_post :: post_outcome

record tick_io = app_tick_io +
  now_due :: datetime
  now_msg :: datetime
  now_set :: datetime
  report_post :: post_outcome
  handler_post :: post_outcome

text \<open>
  The clause \<^verbatim>\<open>except Exception as e\<close> of the loop: one ERROR notification. (An
  interrupt from the keyboard, logging and the sleep are outside the model.)
\<close>

definition loop_handler :: "py_error \<Rightarrow> post_outcome \<Rightarrow> alert" where
  "loop_handler e post = send_telegram_alert (Monitor_error e) ''ERROR'' post"

text \<open>One iteration of \<^verbatim>\<open>monitor_loop\<close> in \<^verbatim>\<open>app.py\<close> (lines 171-219).\<close>

definition app_monitor_iteration :: "app_monitor \<Rightarrow> app_tick_io \<Rightarrow> app_monitor \<times> alert list" where
  "app_monitor_iteration s io =
     (let health_status = check_supabase_health (primary io);
          endpoints_status =
            check_specific_endpoints (auth_ep io) (realtime_ep io) (storage_ep io)
      in alert_logic s health_status endpoints_status (alert_post io))"

text \<open>One iteration of \<^verbatim>\<open>monitor_loop\<close> in \<^verbatim>\<open>supabase_monitor.py\<close> (lines 251-306).\<close>

definition monitor_iteration :: "monitor \<Rightarrow> tick_io \<Rightarrow> monitor \<times> alert list" where
  "monitor_iteration s io =
     (let (exc, s, sent1) =
            (if should_send_daily_report s (now_due io) \<and> last_status s = Some ''healthy''
             then send_daily_success_report s (now_msg io) (now_set io) (report_post io)
             else (None, s, []))
      in case exc of
           Some e \<Rightarrow> (s, sent1 @ [loop_handler e (handler_post io)])
         | None \<Rightarrow>
             (let health_status = check_supabase_health (primary io);
                  (exc, ds) = update_daily_stats (daily_stats s) health_status;
                  s = s\<lparr>daily_stats := ds\<rparr>
              in case exc of
                   Some e \<Rightarrow> (s, sent1 @ [loop_handler e (handler_post io)])
                 | None \<Rightarrow>
                     (let endpoints_status =
                            check_specific_endpoints (auth_ep io) (realtime_ep io)
                              (storage_ep io);
                          (s, sent2) =
                            alert_logic s health_status endpoints_status (alert_post io)
                      in (s, sent1 @ sent2))))"

text \<open>
  Calls of the two statistics operations, for stating what holds after any sequence of
  them from the state of \<^verbatim>\<open>__init__\<close>.
\<close>

datatype stats_op = Record_op health_status | Reset_op

fun apply_stats_op :: "monitor \<Rightarrow> stats_op \<Rightarrow> monitor" where
  "apply_stats_op s (Record_op h) = s\<lparr>daily_stats := snd (update_daily_stats (daily_stats s) h)\<rparr>"
| "apply_stats_op s Reset_op = reset_daily_stats s"

definition mean :: "real list \<Rightarrow> real" where
  "mean xs = sum_list xs / real (length xs)"

definition average_invariant :: "daily_stats \<Rightarrow> bool" where
  "average_invariant ds =
     (average_response_time ds = (if response_times ds = [] then 0 else mean (response_times ds)))"

section \<open>Sample inputs\<close>

text \<open>Concrete inputs on which the theorems below are instantiated.\<close>

definition at_time :: "nat \<Rightarrow> nat \<Rightarrow> datetime" where
  "at_time h m =
     \<lparr>date = \<lparr>year = 2024, month = 3, day = 15\<rparr>,
      time = \<lparr>hour = h, minute = m, second = 0, microsecond = 0\<rparr>\<rparr>"

definition sample_app_io :: "transport \<Rightarrow> app_tick_io" where
  "sample_app_io tr =
     \<lparr>primary = tr, auth_ep = Response 200 8, realtime_ep = Raised ConnectionError ''refused'',
      storage_ep = Response 503 9, alert_post = PostReturned 200 ''OK''\<rparr>"

definition sample_io :: "transport \<Rightarrow> tick_io" where
  "sample_io tr =
     \<lparr>primary = tr, auth_ep = Response 200 8, realtime_ep = Raised ConnectionError ''refused'',
      storage_ep = Response 503 9, alert_post = PostReturned 200 ''OK'',
      now_due = at_time 10 30, now_msg = at_time 10 30, now_set = at_time 10 30,
      report_post = PostRaised Timeout ''timed out'', handler_post = PostReturned 200 ''OK''\<rparr>"

definition sample_outcome :: "string \<Rightarrow> real option \<Rightarrow> health_status" where
  "sample_outcome st rt =
     \<lparr>status = st, response_time = rt, error_message = None, status_code = None\<rparr>"

section \<open>Properties of the primary health check\<close>

lemma check_supabase_health_Response:
  "check_supabase_health (Response code ms) =
     \<lparr>status = (if code = 200 then ''healthy''
                else if code \<ge> 500 \<or> code = 401 \<or> code = 403 then ''error''
                else ''warning''),
      response_time = Some ms,
      error_message =
        (if code = 200 then None
         else if code \<ge> 500 then Some (''Internal server error: '' @ str_int code)
         else if code = 401 then Some ''Authentication failed - check your API key''
         else if code = 403 then Some ''Access forbidden - check permissions''
         else if code \<ge> 400 then Some (''Client error: '' @ str_int code)
         else Some (''Unexpected status code: '' @ str_int code)),
      status_code = Some code\<rparr>"
  by (simp add: check_supabase_health_def Let_def)

lemma check_supabase_health_Raised:
  "status (check_supabase_health (Raised c txt)) = ''error''"
  by (simp add: check_supabase_health_def Let_def)

text \<open>
  C2. For every HTTP status code the classification and the error message of the primary
  check are determined by the code alone (the measured latency \<open>ms\<close> plays no part):
  200 is healthy with no message; a code of 500 or more is an error with
  "Internal server error: code"; 401 and 403 are errors with their fixed messages; any
  other code in [400,500) is a warning with "Client error: code"; every remaining code is
  a warning with "Unexpected status code: code".
\<close>

theorem classification_by_status_code:
  fixes code :: int and ms :: real
  defines "h \<equiv> check_supabase_health (Response code ms)"
  shows "(code = 200 \<longrightarrow> status h = ''healthy'' \<and> error_message h = None)
       \<and> (code \<ge> 500 \<longrightarrow> status h = ''error''
             \<and> error_message h = Some (''Internal server error: '' @ str_int code))
       \<and> (code = 401 \<longrightarrow> status h = ''error''
             \<and> error_message h = Some ''Authentication failed - check your API key'')
       \<and> (code = 403 \<longrightarrow> status h = ''error''
             \<and> error_message h = Some ''Access forbidden - check permissions'')
       \<and> (400 \<le> code \<and> code < 500 \<and> code \<noteq> 401 \<and> code \<noteq> 403 \<longrightarrow> status h = ''warning''
             \<and> error_message h = Some (''Client error: '' @ str_int code))
       \<and> (code \<noteq> 200 \<and> code < 400 \<longrightarrow> status h = ''warning''
             \<and> error_message h = Some (''Unexpected status code: '' @ str_int code))"
  unfolding h_def check_supabase_health_Response by simp

theorem classification_by_status_code_witness:
  "status (check_supabase_health (Response 200 12)) = ''healthy''
   \<and> error_message (check_supabase_health (Response 200 12)) = None
   \<and> status (check_supabase_health (Response 503 12)) = ''error''
   \<and> error_message (check_supabase_health (Response 503 12)) = Some ''Internal server error: 503''
   \<and> status (check_supabase_health (Response 401 12)) = ''error''
   \<and> error_message (check_supabase_health (Response 401 12))
       = Some ''Authentication failed - check your API key''
   \<and> status (check_supabase_health (Response 403 12)) = ''error''
   \<and> error_message (check_supabase_health (Response 403 12))
       = Some ''Access forbidden - check permissions''
   \<and> status (check_supabase_health (Response 404 12)) = ''warning''
   \<and> error_message (check_supabase_health (Response 404 12)) = Some ''Client error: 404''
   \<and> status (check_supabase_health (Response 302 12)) = ''warning''
   \<and> error_message (check_supabase_health (Response 302 12))
       = Some ''Unexpected status code: 302''"
proof -
  have d: "str_int 503 = ''503''" "str_int 404 = ''404''" "str_int 302 = ''302''"
    by code_simp+
  show ?thesis
    using classification_by_status_code [of 200 12] classification_by_status_code [of 503 12]
      classification_by_status_code [of 401 12] classification_by_status_code [of 403 12]
      classification_by_status_code [of 404 12] classification_by_status_code [of 302 12]
    by (simp add: d)
qed

text \<open>
  C10. Whatever the request does (any response, any exception, the catch-all clause
  included), the status returned by the primary health check is one of
  \<^verbatim>\<open>'healthy'\<close>, \<^verbatim>\<open>'warning'\<close>, \<^verbatim>\<open>'error'\<close>: the initial \<^verbatim>\<open>'unknown'\<close> is always
  overwritten.
\<close>

theorem health_check_never_unknown:
  "status (check_supabase_health tr) \<in> {''healthy'', ''warning'', ''error''}
   \<and> status (check_supabase_health tr) \<noteq> ''unknown''"
proof (cases tr)
  case (Response code ms)
  then show ?thesis by (simp add: check_supabase_health_Response)
next
  case (Raised c msg)
  then show ?thesis by (simp add: check_supabase_health_Raised)
qed

section \<open>Statistics, report and alert logic: what each function returns\<close>

lemma py_truediv_nonzero: "b \<noteq> 0 \<Longrightarrow> py_truediv a b = Inr (a / b)"
  by (simp add: py_truediv_def)

lemma uptime_percentage_value:
  "uptime_percentage ds =
     Inr (100 - real_of_int (errors_today ds) / real_of_int (max (checks_today ds) 1) * 100)"
proof -
  have "real_of_int (max (checks_today ds) 1) \<noteq> 0" by simp
  then show ?thesis by (simp add: uptime_percentage_def py_truediv_nonzero)
qed

lemma update_daily_stats_result:
  "update_daily_stats ds h =
     (None,
      ds\<lparr>checks_today := checks_today ds + 1,
         errors_today := (if status h = ''error'' then errors_today ds + 1 else errors_today ds),
         total_downtime_minutes :=
           (if status h = ''error'' then total_downtime_minutes ds + 1
            else total_downtime_minutes ds),
         warnings_today :=
           (if status h = ''warning'' then warnings_today ds + 1 else warnings_today ds),
         response_times :=
           (case response_time h of None \<Rightarrow> response_times ds
            | Some rt \<Rightarrow> if rt = 0 then response_times ds else response_times ds @ [rt]),
         average_response_time :=
           (case response_time h of None \<Rightarrow> average_response_time ds
            | Some rt \<Rightarrow> if rt = 0 then average_response_time ds
                         else mean (response_times ds @ [rt]))\<rparr>)"
  by (cases "response_time h")
     (simp_all add: update_daily_stats_def Let_def CHECK_INTERVAL_def py_truediv_def mean_def)


lemma update_daily_stats_no_exception: "fst (update_daily_stats ds h) = None"
  by (simp add: update_daily_stats_result)

lemma send_daily_success_report_result:
  "send_daily_success_report s n1 n2 post =
     (None,
      s\<lparr>last_daily_report_date := Some (date n2), daily_stats := zero_daily_stats\<rparr>,
      [send_telegram_alert
         (Daily_report (date n1) (last_status s = Some ''healthy'')
            (checks_today (daily_stats s))
            (100 - real_of_int (errors_today (daily_stats s))
                   / real_of_int (max (checks_today (daily_stats s)) 1) * 100)
            (errors_today (daily_stats s)) (warnings_today (daily_stats s))
            (if total_downtime_minutes (daily_stats s) > 0
             then Some (total_downtime_minutes (daily_stats s)) else None)
            (if average_response_time (daily_stats s) > 0
             then Some (average_response_time (daily_stats s)) else None))
         ''DAILY_SUCCESS'' post])"
  by (simp add: send_daily_success_report_def uptime_percentage_value Let_def
        reset_daily_stats_def)

lemma alert_logic_error:
  assumes "status h = ''error''"
  shows "alert_logic s h eps post =
     (s\<lparr>consecutive_failures := consecutive_failures s + 1, last_status := Some ''error''\<rparr>,
      if consecutive_failures s + 1 = 1 \<or> (consecutive_failures s + 1) mod 5 = 0
      then [send_telegram_alert
              (Down (error_message h) (status_code h) (consecutive_failures s + 1)
                 (map fst (filter (\<lambda>(name, st). ep_status st = ''error'') eps)))
              ''ERROR'' post]
      else [])"
  using assms by (simp add: alert_logic_def Let_def)

lemma alert_logic_warning:
  assumes "status h = ''warning''"
  shows "alert_logic s h eps post =
     (s\<lparr>consecutive_failures := 0, last_status := Some ''warning''\<rparr>,
      [send_telegram_alert (Warning_msg (error_message h) (status_code h) (response_time h))
         ''WARNING'' post])"
  using assms by (simp add: alert_logic_def Let_def)

lemma alert_logic_other:
  assumes "status h \<noteq> ''error''" and "status h \<noteq> ''warning''"
  shows "alert_logic s h eps post =
     (s\<lparr>consecutive_failures := 0, last_status := Some (status h)\<rparr>,
      if (last_status s = Some ''error'' \<or> last_status s = Some ''warning'')
         \<and> status h = ''healthy''
      then [send_telegram_alert (Back_online (response_time h) (consecutive_failures s))
              ''INFO'' post]
      else [])"
  using assms by (simp add: alert_logic_def Let_def)

lemma severity_send_telegram_alert [simp]:
  "alert_severity (send_telegram_alert m sev post) = sev"
  by (simp add: send_telegram_alert_def)

text \<open>What the alert logic does to the two attributes and which severities it sends.\<close>

lemma alert_logic_consecutive_failures:
  "consecutive_failures (fst (alert_logic s h eps post)) =
     (if status h = ''error'' then consecutive_failures s + 1 else 0)"
  by (cases "status h = ''error''"; cases "status h = ''warning''")
     (simp_all add: alert_logic_error alert_logic_warning alert_logic_other)

lemma alert_logic_last_status:
  "last_status (fst (alert_logic s h eps post)) = Some (status h)"
  by (cases "status h = ''error''"; cases "status h = ''warning''")
     (simp_all add: alert_logic_error alert_logic_warning alert_logic_other)

lemma alert_logic_severities:
  "alert_severity ` set (snd (alert_logic s h eps post)) =
     (if status h = ''error'' then
        (if consecutive_failures s + 1 = 1 \<or> (consecutive_failures s + 1) mod 5 = 0
         then {''ERROR''} else {})
      else if status h = ''warning'' then {''WARNING''}
      else if (last_status s = Some ''error'' \<or> last_status s = Some ''warning'')
              \<and> status h = ''healthy'' then {''INFO''}
      else {})"
  by (cases "status h = ''error''"; cases "status h = ''warning''")
     (simp_all add: alert_logic_error alert_logic_warning alert_logic_other)

text \<open>
  The iteration with the daily report: neither exception handler is reached, and the
  alert logic runs on a monitor whose last status and failure count are those at the
  start of the iteration.
\<close>

lemma monitor_iteration_alert_logic:
  fixes s :: monitor and io :: tick_io
  shows "\<exists>s2 sent1.
           monitor_iteration s io =
             (fst (alert_logic s2 (check_supabase_health (primary io))
                     (check_specific_endpoints (auth_ep io) (realtime_ep io) (storage_ep io))
                     (alert_post io)),
              sent1 @ snd (alert_logic s2 (check_supabase_health (primary io))
                     (check_specific_endpoints (auth_ep io) (realtime_ep io) (storage_ep io))
                     (alert_post io)))
         \<and> last_status s2 = last_status s
         \<and> consecutive_failures s2 = consecutive_failures s
         \<and> alert_severity ` set sent1 \<subseteq> {''DAILY_SUCCESS''}"
proof (cases "should_send_daily_report s (now_due io) \<and> last_status s = Some ''healthy''")
  case True
  let ?h = "check_supabase_health (primary io)"
  let ?s1 = "s\<lparr>last_daily_report_date := Some (date (now_set io)), daily_stats := zero_daily_stats\<rparr>"
  let ?s2 = "?s1\<lparr>daily_stats := snd (update_daily_stats (daily_stats ?s1) ?h)\<rparr>"
  obtain a where a: "send_daily_success_report s (now_msg io) (now_set io) (report_post io)
      = (None, ?s1, [a])" "alert_severity a = ''DAILY_SUCCESS''"
    by (simp add: send_daily_success_report_result)
  have "monitor_iteration s io =
          (fst (alert_logic ?s2 ?h
                  (check_specific_endpoints (auth_ep io) (realtime_ep io) (storage_ep io))
                  (alert_post io)),
           [a] @ snd (alert_logic ?s2 ?h
                  (check_specific_endpoints (auth_ep io) (realtime_ep io) (storage_ep io))
                  (alert_post io)))"
    by (simp only: monitor_iteration_def if_P [OF True] a(1))
       (simp add: Let_def split_def update_daily_stats_no_exception)
  then show ?thesis using a(2) by (intro exI [of _ ?s2] exI [of _ "[a]"]) simp
next
  case False
  let ?h = "check_supabase_health (primary io)"
  let ?s2 = "s\<lparr>daily_stats := snd (update_daily_stats (daily_stats s) ?h)\<rparr>"
  have "monitor_iteration s io =
          (fst (alert_logic ?s2 ?h
                  (check_specific_endpoints (auth_ep io) (realtime_ep io) (storage_ep io))
                  (alert_post io)),
           [] @ snd (alert_logic ?s2 ?h
                  (check_specific_endpoints (auth_ep io) (realtime_ep io) (storage_ep io))
                  (alert_post io)))"
    by (simp only: monitor_iteration_def if_not_P [OF False])
       (simp add: Let_def split_def update_daily_stats_no_exception)
  then show ?thesis by (intro exI [of _ ?s2] exI [of _ "[]"]) simp
qed

lemma monitor_iteration_consecutive_failures:
  "consecutive_failures (fst (monitor_iteration s io)) =
     (if status (check_supabase_health (primary io)) = ''error''
      then consecutive_failures s + 1 else 0)"
  using monitor_iteration_alert_logic [of s io]
  by (auto simp: alert_logic_consecutive_failures)

lemma monitor_iteration_last_status:
  "last_status (fst (monitor_iteration s io)) = Some (status (check_supabase_health (primary io)))"
  using monitor_iteration_alert_logic [of s io]
  by (auto simp: alert_logic_last_status)

lemma monitor_iteration_severity:
  assumes "sev \<noteq> ''DAILY_SUCCESS''"
  shows "sev \<in> alert_severity ` set (snd (monitor_iteration s io)) \<longleftrightarrow>
         sev \<in> alert_severity ` set
                   (snd (alert_logic s (check_supabase_health (primary io))
                      (check_specific_endpoints (auth_ep io) (realtime_ep io) (storage_ep io))
                      (alert_post io)))"
proof -
  obtain s2 sent1 where m: "monitor_iteration s io =
             (fst (alert_logic s2 (check_supabase_health (primary io))
                (check_specific_endpoints (auth_ep io) (realtime_ep io) (storage_ep io)) (alert_post io)),
              sent1 @ snd (alert_logic s2 (check_supabase_health (primary io))
                (check_specific_endpoints (auth_ep io) (realtime_ep io) (storage_ep io)) (alert_post io)))"
      and l: "last_status s2 = last_status s"
      and c: "consecutive_failures s2 = consecutive_failures s"
      and d: "alert_severity ` set sent1 \<subseteq> {''DAILY_SUCCESS''}"
    using monitor_iteration_alert_logic [of s io] by blast
  have "sev \<notin> alert_severity ` set sent1" using d assms by blast
  then show ?thesis
    unfolding m using l c by (simp add: alert_logic_severities image_Un)
qed

lemma app_monitor_iteration_eq:
  "app_monitor_iteration s io =
     alert_logic s (check_supabase_health (primary io))
       (check_specific_endpoints (auth_ep io) (realtime_ep io) (storage_ep io)) (alert_post io)"
  by (simp add: app_monitor_iteration_def Let_def)

section \<open>Properties of one iteration of the loop\<close>

text \<open>
  C1. On every iteration whose health check is classified \<^verbatim>\<open>'error'\<close>, in the loop of
  either script, the failure count grows by one, and a notification of severity ERROR
  is sent if and only if the new count is 1 or a multiple of 5.
\<close>

theorem error_tick_alert_hysteresis:
  fixes s :: monitor and io :: tick_io and t :: app_monitor and jo :: app_tick_io
  shows "(status (check_supabase_health (primary io)) = ''error'' \<longrightarrow>
            consecutive_failures (fst (monitor_iteration s io)) = consecutive_failures s + 1
          \<and> (''ERROR'' \<in> alert_severity ` set (snd (monitor_iteration s io)) \<longleftrightarrow>
               consecutive_failures (fst (monitor_iteration s io)) = 1
             \<or> consecutive_failures (fst (monitor_iteration s io)) mod 5 = 0))
       \<and> (status (check_supabase_health (primary jo)) = ''error'' \<longrightarrow>
            consecutive_failures (fst (app_monitor_iteration t jo)) = consecutive_failures t + 1
          \<and> (''ERROR'' \<in> alert_severity ` set (snd (app_monitor_iteration t jo)) \<longleftrightarrow>
               consecutive_failures (fst (app_monitor_iteration t jo)) = 1
             \<or> consecutive_failures (fst (app_monitor_iteration t jo)) mod 5 = 0))"
  by (simp add: monitor_iteration_consecutive_failures monitor_iteration_severity
        app_monitor_iteration_eq alert_logic_consecutive_failures alert_logic_severities)


theorem error_tick_alert_hysteresis_witness:
  "status (check_supabase_health (primary (sample_io (Response 503 12)))) = ''error''
   \<and> consecutive_failures
         (fst (monitor_iteration (init\<lparr>consecutive_failures := 4\<rparr>) (sample_io (Response 503 12)))) = 5
   \<and> ''ERROR'' \<in> alert_severity `
         set (snd (monitor_iteration (init\<lparr>consecutive_failures := 4\<rparr>) (sample_io (Response 503 12))))
   \<and> consecutive_failures
         (fst (monitor_iteration (init\<lparr>consecutive_failures := 1\<rparr>) (sample_io (Response 503 12)))) = 2
   \<and> ''ERROR'' \<notin> alert_severity `
         set (snd (monitor_iteration (init\<lparr>consecutive_failures := 1\<rparr>) (sample_io (Response 503 12))))
   \<and> status (check_supabase_health (primary (sample_app_io (Raised Timeout ''slow'')))) = ''error''
   \<and> consecutive_failures
         (fst (app_monitor_iteration app_init (sample_app_io (Raised Timeout ''slow'')))) = 1
   \<and> ''ERROR'' \<in> alert_severity `
         set (snd (app_monitor_iteration app_init (sample_app_io (Raised Timeout ''slow''))))
   \<and> consecutive_failures
         (fst (app_monitor_iteration (app_init\<lparr>consecutive_failures := 5\<rparr>)
                 (sample_app_io (Raised Timeout ''slow'')))) = 6
   \<and> ''ERROR'' \<notin> alert_severity `
         set (snd (app_monitor_iteration (app_init\<lparr>consecutive_failures := 5\<rparr>)
                 (sample_app_io (Raised Timeout ''slow''))))"
  using error_tick_alert_hysteresis
          [of "sample_io (Response 503 12)" "init\<lparr>consecutive_failures := 4\<rparr>"
              "sample_app_io (Raised Timeout ''slow'')" app_init]
        error_tick_alert_hysteresis
          [of "sample_io (Response 503 12)" "init\<lparr>consecutive_failures := 1\<rparr>"
              "sample_app_io (Raised Timeout ''slow'')" "app_init\<lparr>consecutive_failures := 5\<rparr>"]
  by (simp add: sample_io_def sample_app_io_def init_def app_init_def
        check_supabase_health_Response check_supabase_health_Raised)

text \<open>
  C3. After an iteration whose classification is not \<^verbatim>\<open>'error'\<close>, the failure count is
  0, whatever it was before, in the loop of either script. The alert logic does the same
  on any outcome that is not an error, \<^verbatim>\<open>'unknown'\<close> included.
\<close>

theorem non_error_tick_resets_failures:
  fixes s :: monitor and io :: tick_io and t :: app_monitor and jo :: app_tick_io
    and u :: app_monitor and h :: health_status
  shows "(status (check_supabase_health (primary io)) \<noteq> ''error'' \<longrightarrow>
            consecutive_failures (fst (monitor_iteration s io)) = 0)
       \<and> (status (check_supabase_health (primary jo)) \<noteq> ''error'' \<longrightarrow>
            consecutive_failures (fst (app_monitor_iteration t jo)) = 0)
       \<and> (status h \<noteq> ''error'' \<longrightarrow>
            consecutive_failures (fst (alert_logic u h eps post)) = 0)"
  by (simp add: monitor_iteration_consecutive_failures app_monitor_iteration_eq
        alert_logic_consecutive_failures)

theorem non_error_tick_resets_failures_witness:
  "status (check_supabase_health (primary (sample_io (Response 404 12)))) \<noteq> ''error''
   \<and> consecutive_failures
         (fst (monitor_iteration (init\<lparr>consecutive_failures := 7\<rparr>) (sample_io (Response 404 12)))) = 0
   \<and> status (check_supabase_health (primary (sample_app_io (Response 200 12)))) \<noteq> ''error''
   \<and> consecutive_failures
         (fst (app_monitor_iteration (app_init\<lparr>consecutive_failures := 7\<rparr>)
                 (sample_app_io (Response 200 12)))) = 0
   \<and> status (sample_outcome ''unknown'' None) \<noteq> ''error''
   \<and> consecutive_failures
         (fst (alert_logic (app_init\<lparr>consecutive_failures := 7\<rparr>)
                 (sample_outcome ''unknown'' None) [] (PostReturned 200 ''OK''))) = 0"
  using non_error_tick_resets_failures
          [of "sample_io (Response 404 12)" "init\<lparr>consecutive_failures := 7\<rparr>"
              "sample_app_io (Response 200 12)" "app_init\<lparr>consecutive_failures := 7\<rparr>"
              "sample_outcome ''unknown'' None" "app_init\<lparr>consecutive_failures := 7\<rparr>"
              "[]" "PostReturned 200 ''OK''"]
  by (simp add: sample_io_def sample_app_io_def sample_outcome_def
        check_supabase_health_Response)

text \<open>
  C4. An iteration sends a notification of severity INFO if and only if the previous
  status is \<^verbatim>\<open>'error'\<close> or \<^verbatim>\<open>'warning'\<close> and the current one is \<^verbatim>\<open>'healthy'\<close> (so
  none on healthy after healthy), and after the iteration the stored status is the
  current one; the decision reads the status stored before the iteration.
\<close>

theorem recovery_alert_iff:
  fixes s :: monitor and io :: tick_io and t :: app_monitor and jo :: app_tick_io
  shows "(''INFO'' \<in> alert_severity ` set (snd (monitor_iteration s io)) \<longleftrightarrow>
            (last_status s = Some ''error'' \<or> last_status s = Some ''warning'')
          \<and> status (check_supabase_health (primary io)) = ''healthy'')
       \<and> last_status (fst (monitor_iteration s io))
           = Some (status (check_supabase_health (primary io)))
       \<and> (''INFO'' \<in> alert_severity ` set (snd (app_monitor_iteration t jo)) \<longleftrightarrow>
            (last_status t = Some ''error'' \<or> last_status t = Some ''warning'')
          \<and> status (check_supabase_health (primary jo)) = ''healthy'')
       \<and> last_status (fst (app_monitor_iteration t jo))
           = Some (status (check_supabase_health (primary jo)))"
  by (simp add: monitor_iteration_severity monitor_iteration_last_status
        app_monitor_iteration_eq alert_logic_severities alert_logic_last_status)

theorem recovery_alert_iff_witness:
  "''INFO'' \<in> alert_severity `
       set (snd (monitor_iteration (init\<lparr>last_status := Some ''error''\<rparr>) (sample_io (Response 200 12))))
   \<and> last_status (fst (monitor_iteration (init\<lparr>last_status := Some ''error''\<rparr>)
                          (sample_io (Response 200 12)))) = Some ''healthy''
   \<and> ''INFO'' \<notin> alert_severity `
       set (snd (monitor_iteration (init\<lparr>last_status := Some ''healthy''\<rparr>) (sample_io (Response 200 12))))
   \<and> ''INFO'' \<in> alert_severity `
       set (snd (app_monitor_iteration (app_init\<lparr>last_status := Some ''warning''\<rparr>)
                   (sample_app_io (Response 200 12))))
   \<and> ''INFO'' \<notin> alert_severity `
       set (snd (app_monitor_iteration (app_init\<lparr>last_status := Some ''healthy''\<rparr>)
                   (sample_app_io (Response 200 12))))
   \<and> last_status (fst (app_monitor_iteration (app_init\<lparr>last_status := Some ''healthy''\<rparr>)
                          (sample_app_io (Response 200 12)))) = Some ''healthy''"
  using recovery_alert_iff
          [of "init\<lparr>last_status := Some ''error''\<rparr>" "sample_io (Response 200 12)"
              "app_init\<lparr>last_status := Some ''warning''\<rparr>" "sample_app_io (Response 200 12)"]
        recovery_alert_iff
          [of "init\<lparr>last_status := Some ''healthy''\<rparr>" "sample_io (Response 200 12)"
              "app_init\<lparr>last_status := Some ''healthy''\<rparr>" "sample_app_io (Response 200 12)"]
  by (simp add: sample_io_def sample_app_io_def init_def app_init_def
        check_supabase_health_Response)


section \<open>Properties of the report schedule and the statistics\<close>

lemma time_ge_DAILY_REPORT_TIME: "time_ge t DAILY_REPORT_TIME \<longleftrightarrow> 9 \<le> hour t"
  by (auto simp: time_ge_def DAILY_REPORT_TIME_def)

text \<open>
  C5. For every clock reading and every stored report date (or none), the daily report
  is due if and only if the stored date differs from the date of the reading and the time
  of the reading is at or after 09:00; it is never due when the stored date is that of
  the reading, and never before 09:00.
\<close>

theorem daily_report_due_iff:
  "(should_send_daily_report s now \<longleftrightarrow>
      last_daily_report_date s \<noteq> Some (date now) \<and> time_ge (time now) DAILY_REPORT_TIME)
   \<and> (time_ge (time now) DAILY_REPORT_TIME \<longleftrightarrow> 9 \<le> hour (time now))
   \<and> (last_daily_report_date s = Some (date now) \<longrightarrow> \<not> should_send_daily_report s now)
   \<and> (hour (time now) < 9 \<longrightarrow> \<not> should_send_daily_report s now)"
  by (auto simp: should_send_daily_report_def Let_def time_ge_DAILY_REPORT_TIME)

theorem daily_report_due_iff_witness:
  "should_send_daily_report init (at_time 9 0)
   \<and> should_send_daily_report (init\<lparr>last_daily_report_date := Some \<lparr>year = 2024, month = 3, day = 14\<rparr>\<rparr>)
        (at_time 10 30)
   \<and> last_daily_report_date (init\<lparr>last_daily_report_date := Some (date (at_time 10 30))\<rparr>)
        = Some (date (at_time 10 30))
   \<and> \<not> should_send_daily_report (init\<lparr>last_daily_report_date := Some (date (at_time 10 30))\<rparr>)
        (at_time 10 30)
   \<and> hour (time (at_time 8 59)) < 9
   \<and> \<not> should_send_daily_report init (at_time 8 59)"
  using daily_report_due_iff [of init "at_time 9 0"]
    daily_report_due_iff
      [of "init\<lparr>last_daily_report_date := Some \<lparr>year = 2024, month = 3, day = 14\<rparr>\<rparr>" "at_time 10 30"]
    daily_report_due_iff
      [of "init\<lparr>last_daily_report_date := Some (date (at_time 10 30))\<rparr>" "at_time 10 30"]
    daily_report_due_iff [of init "at_time 8 59"]
  by (simp add: init_def at_time_def)

text \<open>
  C8. For all counter values the uptime percentage is computed without a division by
  zero and equals 100 - errors_today / max(checks_today, 1) * 100; with no checks the
  divisor is 1, and 100 checks with 5 errors give 95.
\<close>

theorem uptime_percentage_formula:
  "uptime_percentage ds =
     Inr (100 - real_of_int (errors_today ds) / real_of_int (max (checks_today ds) 1) * 100)
   \<and> (checks_today ds = 0 \<longrightarrow>
        uptime_percentage ds = Inr (100 - real_of_int (errors_today ds) / 1 * 100))
   \<and> (checks_today ds = 100 \<and> errors_today ds = 5 \<longrightarrow> uptime_percentage ds = Inr 95)"
  by (simp add: uptime_percentage_value)

theorem uptime_percentage_formula_witness:
  "checks_today (zero_daily_stats\<lparr>checks_today := 100, errors_today := 5\<rparr>) = 100
   \<and> errors_today (zero_daily_stats\<lparr>checks_today := 100, errors_today := 5\<rparr>) = 5
   \<and> uptime_percentage (zero_daily_stats\<lparr>checks_today := 100, errors_today := 5\<rparr>) = Inr 95
   \<and> checks_today zero_daily_stats = 0
   \<and> uptime_percentage zero_daily_stats = Inr 100"
  using uptime_percentage_formula [of "zero_daily_stats\<lparr>checks_today := 100, errors_today := 5\<rparr>"]
    uptime_percentage_formula [of zero_daily_stats]
  by (simp add: zero_daily_stats_def)

text \<open>
  C9. Sending the daily report raises nothing, stores the date of the clock reading taken
  after the dispatch and resets every field of the statistics, whatever the outcome
  \<open>post\<close> of the delivery (a failed delivery is only logged).
\<close>

theorem daily_report_stamps_date_and_resets:
  fixes s :: monitor and n1 n2 :: datetime and post :: post_outcome
  defines "r \<equiv> send_daily_success_report s n1 n2 post"
  shows "fst r = None
       \<and> last_daily_report_date (fst (snd r)) = Some (date n2)
       \<and> daily_stats (fst (snd r)) = zero_daily_stats
       \<and> checks_today (daily_stats (fst (snd r))) = 0
       \<and> errors_today (daily_stats (fst (snd r))) = 0
       \<and> warnings_today (daily_stats (fst (snd r))) = 0
       \<and> total_downtime_minutes (daily_stats (fst (snd r))) = 0
       \<and> average_response_time (daily_stats (fst (snd r))) = 0
       \<and> response_times (daily_stats (fst (snd r))) = []
       \<and> map alert_severity (snd (snd r)) = [''DAILY_SUCCESS'']"
  unfolding r_def send_daily_success_report_result
  by (simp add: zero_daily_stats_def)

theorem daily_report_stamps_date_and_resets_witness:
  "fst (send_daily_success_report
          (init\<lparr>last_status := Some ''healthy'',
                daily_stats := zero_daily_stats\<lparr>checks_today := 100, errors_today := 5\<rparr>\<rparr>)
          (at_time 9 0) (at_time 9 1) (PostRaised ConnectionError ''refused'')) = None
   \<and> last_daily_report_date
        (fst (snd (send_daily_success_report
          (init\<lparr>last_status := Some ''healthy'',
                daily_stats := zero_daily_stats\<lparr>checks_today := 100, errors_today := 5\<rparr>\<rparr>)
          (at_time 9 0) (at_time 9 1) (PostRaised ConnectionError ''refused''))))
       = Some \<lparr>year = 2024, month = 3, day = 15\<rparr>
   \<and> checks_today (daily_stats
        (fst (snd (send_daily_success_report
          (init\<lparr>last_status := Some ''healthy'',
                daily_stats := zero_daily_stats\<lparr>checks_today := 100, errors_today := 5\<rparr>\<rparr>)
          (at_time 9 0) (at_time 9 1) (PostRaised ConnectionError ''refused''))))) = 0
   \<and> errors_today (daily_stats
        (fst (snd (send_daily_success_report
          (init\<lparr>last_status := Some ''healthy'',
                daily_stats := zero_daily_stats\<lparr>checks_today := 100, errors_today := 5\<rparr>\<rparr>)
          (at_time 9 0) (at_time 9 1) (PostReturned 500 ''Server Error''))))) = 0"
  using daily_report_stamps_date_and_resets
          [of "init\<lparr>last_status := Some ''healthy'',
                daily_stats := zero_daily_stats\<lparr>checks_today := 100, errors_today := 5\<rparr>\<rparr>"
              "at_time 9 0" "at_time 9 1" "PostRaised ConnectionError ''refused''"]
        daily_report_stamps_date_and_resets
          [of "init\<lparr>last_status := Some ''healthy'',
                daily_stats := zero_daily_stats\<lparr>checks_today := 100, errors_today := 5\<rparr>\<rparr>"
              "at_time 9 0" "at_time 9 1" "PostReturned 500 ''Server Error''"]
  by (simp add: at_time_def zero_daily_stats_def)

lemma average_invariant_update:
  assumes "average_invariant ds"
  shows "average_invariant (snd (update_daily_stats ds h))"
proof (cases "response_time h")
  case None
  with assms show ?thesis
    by (simp add: update_daily_stats_result average_invariant_def)
next
  case (Some rt)
  with assms show ?thesis
    by (simp add: update_daily_stats_result average_invariant_def)
qed

lemma average_invariant_zero: "average_invariant zero_daily_stats"
  by (simp add: average_invariant_def zero_daily_stats_def)

lemma average_invariant_apply_stats_op:
  "average_invariant (daily_stats s) \<Longrightarrow> average_invariant (daily_stats (apply_stats_op s op))"
  by (cases op) (simp_all add: average_invariant_update average_invariant_zero reset_daily_stats_def)

lemma average_invariant_foldl:
  "average_invariant (daily_stats s) \<Longrightarrow>
   average_invariant (daily_stats (foldl apply_stats_op s ops))"
  by (induction ops arbitrary: s) (simp_all add: average_invariant_apply_stats_op)

text \<open>
  C7. The stored average is the arithmetic mean of the samples when there are any, and 0
  when there are none: after any sequence of recordings and resets from the initial
  state, after a recording from any statistics with that property, and after a reset.
  Recording 100, 200 and 300 gives the average 200.
\<close>

theorem average_invariant_after_every_operation:
  "average_invariant (daily_stats (foldl apply_stats_op init ops))
   \<and> (average_invariant ds \<longrightarrow> average_invariant (snd (update_daily_stats ds h)))
   \<and> average_invariant (daily_stats (reset_daily_stats s))
   \<and> average_response_time (daily_stats (foldl apply_stats_op init
         [Record_op (sample_outcome ''healthy'' (Some 100)),
          Record_op (sample_outcome ''healthy'' (Some 200)),
          Record_op (sample_outcome ''healthy'' (Some 300))])) = 200"
proof -
  have "average_invariant (daily_stats init)"
    by (simp add: init_def average_invariant_zero)
  then have "average_invariant (daily_stats (foldl apply_stats_op init ops))"
    by (rule average_invariant_foldl)
  moreover have "average_response_time (daily_stats (foldl apply_stats_op init
         [Record_op (sample_outcome ''healthy'' (Some 100)),
          Record_op (sample_outcome ''healthy'' (Some 200)),
          Record_op (sample_outcome ''healthy'' (Some 300))])) = 200"
    by (simp add: init_def zero_daily_stats_def sample_outcome_def update_daily_stats_result
          mean_def)
  ultimately show ?thesis
    by (simp add: average_invariant_update average_invariant_zero reset_daily_stats_def)
qed

theorem average_invariant_after_every_operation_witness:
  "average_invariant (daily_stats init)
   \<and> response_times (snd (update_daily_stats (daily_stats init) (sample_outcome ''error'' (Some 40))))
       = [40]
   \<and> average_response_time
        (snd (update_daily_stats (daily_stats init) (sample_outcome ''error'' (Some 40)))) = 40
   \<and> average_invariant
        (snd (update_daily_stats (daily_stats init) (sample_outcome ''error'' (Some 40))))"
  using average_invariant_after_every_operation [of "[]" "daily_stats init" "sample_outcome ''error'' (Some 40)" init]
  by (simp add: init_def zero_daily_stats_def sample_outcome_def update_daily_stats_result mean_def)

text \<open>
  What a recording does to the counters, and to the samples when the latency is not zero.
\<close>

lemma update_daily_stats_counters:
  "checks_today (snd (update_daily_stats ds h)) = checks_today ds + 1
   \<and> errors_today (snd (update_daily_stats ds h))
       = (if status h = ''error'' then errors_today ds + 1 else errors_today ds)
   \<and> total_downtime_minutes (snd (update_daily_stats ds h))
       = (if status h = ''error'' then total_downtime_minutes ds + real_of_int CHECK_INTERVAL / 60
          else total_downtime_minutes ds)
   \<and> warnings_today (snd (update_daily_stats ds h))
       = (if status h = ''warning'' then warnings_today ds + 1 else warnings_today ds)"
  by (simp add: update_daily_stats_result CHECK_INTERVAL_def)

lemma update_daily_stats_nonzero_latency:
  assumes "response_time h = Some rt" and "rt \<noteq> 0"
  shows "response_times (snd (update_daily_stats ds h)) = response_times ds @ [rt]
       \<and> average_response_time (snd (update_daily_stats ds h)) = mean (response_times ds @ [rt])"
  using assms by (simp add: update_daily_stats_result)

text \<open>
  C6. The source at a latency of exactly zero, which is present but fails the truth test:
  the check is counted, the latency is not appended and the average is not recomputed
  (the samples stay [100] with average 100, where the mean of [100, 0] is 50).
\<close>

theorem zero_latency_not_recorded:
  "response_time (sample_outcome ''healthy'' (Some 0)) = Some 0
   \<and> update_daily_stats
        (zero_daily_stats\<lparr>checks_today := 1, average_response_time := 100, response_times := [100]\<rparr>)
        (sample_outcome ''healthy'' (Some 0))
     = (None,
        zero_daily_stats\<lparr>checks_today := 2, average_response_time := 100, response_times := [100]\<rparr>)
   \<and> mean [100, 0] = 50"
  by (simp add: update_daily_stats_result sample_outcome_def zero_daily_stats_def mean_def)


end
